theory Spec2Isabelle
  imports Complex_Main
begin

section \<open>Values, exceptions and the outside world\<close>

text \<open>
  The program is one Flask module, \<^verbatim>\<open>sales_deck_backend.py\<close>. Its functions read and
  change three things: the module-level dictionary \<^verbatim>\<open>generated_files\<close>, the files on
  disk, and the log. They are gathered in the record \<open>world\<close>, which every function takes
  and returns. What the program only reads from outside (the clock, random identifiers,
  the replies of the libraries and of the text-generation service) is the record \<open>env\<close>.

  A Python \<^verbatim>\<open>str\<close> is a \<open>string\<close>; a \<open>char\<close> stands for one code point below 256,
  so \<open>length\<close> is Python's \<^verbatim>\<open>len\<close> on such strings.
\<close>

text \<open>What \<^verbatim>\<open>json.loads\<close> and \<^verbatim>\<open>request.get_json\<close> return. A \<open>JDict\<close> lists the items of
  a Python dict in insertion order; lookup is \<open>map_of\<close>.\<close>

datatype json =
    JNull
  | JBool bool
  | JInt int
  | JFloat real
  | JStr string
  | JList "json list"
  | JDict "(string \<times> json) list"

text \<open>The exception classes the program can meet. All of them are subclasses of Python's
  \<^verbatim>\<open>Exception\<close>: \<open>HTTPException c\<close> is what \<^verbatim>\<open>abort(c)\<close> raises (werkzeug's
  \<^verbatim>\<open>HTTPException\<close> derives from \<^verbatim>\<open>Exception\<close>), so an \<^verbatim>\<open>except Exception\<close> clause
  catches every value of this type.\<close>

datatype exn =
    HTTPException nat
  | AttributeError
  | TypeError
  | ValueError
  | JSONDecodeError
  | BinasciiError
  | OSError
  | OpenAIError

datatype level = INFO | WARNING | ERROR

text \<open>One entry of \<^verbatim>\<open>generated_files\<close>: the dict literal of lines 344-348. Time stamps
  are microseconds, the resolution of \<^verbatim>\<open>datetime\<close>.\<close>

record file_info =
  path :: string
  filename :: string
  created_at :: int

record world =
  generated_files :: "(string \<times> file_info) list"
  files :: "string set"
  client :: bool
  api_calls :: nat
  log_entries :: "(level \<times> string) list"

text \<open>
  The environment of one call:
  \<^item> \<open>now\<close> is \<^verbatim>\<open>datetime.now()\<close> (one reading for each call of a handler or cleanup pass);
  \<^item> \<open>uuid4_hex\<close>, \<open>uuid4_str\<close> are the two \<^verbatim>\<open>uuid.uuid4()\<close> values of a request;
  \<^item> \<open>b64decode\<close> is \<^verbatim>\<open>base64.b64decode\<close> (\<open>None\<close>: it raises \<^verbatim>\<open>binascii.Error\<close>);
  \<^item> \<open>json_loads\<close> is \<^verbatim>\<open>json.loads\<close> (\<open>None\<close>: it raises \<^verbatim>\<open>JSONDecodeError\<close>);
  \<^item> \<open>openai_init\<close> is the exception the \<^verbatim>\<open>OpenAI(...)\<close> constructor raises, if any;
  \<^item> \<open>chat_completion\<close> is the outcome of \<^verbatim>\<open>client.chat.completions.create\<close> followed by
    \<^verbatim>\<open>response.choices[0].message.content\<close>, for the prompt built from the five inputs;
  \<^item> \<open>can_write\<close>, \<open>can_remove\<close> say whether the operating system lets the process
    create, respectively delete, the file at a path;
  \<^item> \<open>add_picture_ok\<close> says whether python-pptx accepts the file at a path as a picture;
  \<^item> \<open>isoformat\<close> and \<open>str_exc\<close> are \<^verbatim>\<open>datetime.isoformat\<close> and \<^verbatim>\<open>str(e)\<close>.
\<close>

record env =
  now :: int
  uuid4_hex :: string
  uuid4_str :: string
  b64decode :: "string \<Rightarrow> string option"
  json_loads :: "string \<Rightarrow> json option"
  openai_init :: "exn option"
  chat_completion :: "string \<Rightarrow> string \<Rightarrow> string \<Rightarrow> string \<Rightarrow> string \<Rightarrow> exn + string"
  can_write :: "string \<Rightarrow> bool"
  can_remove :: "string \<Rightarrow> bool"
  add_picture_ok :: "string \<Rightarrow> bool"
  isoformat :: "int \<Rightarrow> string"
  str_exc :: "exn \<Rightarrow> string"

text \<open>\<^verbatim>\<open>logger.info\<close>, \<^verbatim>\<open>logger.warning\<close>, \<^verbatim>\<open>logger.error\<close>: the entry keeps the level
  and the fixed part of the message.\<close>

definition logger :: "level \<Rightarrow> string \<Rightarrow> world \<Rightarrow> world" where
  "logger l msg w = w\<lparr>log_entries := log_entries w @ [(l, msg)]\<rparr>"

section \<open>The artifact store\<close>

definition UPLOAD_FOLDER :: string where
  "UPLOAD_FOLDER = ''temp_files''"

text \<open>\<^verbatim>\<open>os.path.join(app.config['UPLOAD_FOLDER'], name)\<close> for a name that does not start
  with a slash (both callers pass a name starting with a fixed prefix).\<close>

definition os_path_join :: "string \<Rightarrow> string \<Rightarrow> string" where
  "os_path_join d name = d @ ''/'' @ name"

text \<open>\<^verbatim>\<open>timedelta(hours=h)\<close> in microseconds.\<close>

definition timedelta_hours :: "int \<Rightarrow> int" where
  "timedelta_hours h = h * 3600000000"

text \<open>\<^verbatim>\<open>del d[k]\<close> and \<^verbatim>\<open>d[k] = v\<close> on the item list of a dict. Both callers of
  \<^verbatim>\<open>del\<close> have just found the key in the dict, so its \<^verbatim>\<open>KeyError\<close> is not a branch.\<close>

definition dict_del :: "(string \<times> 'v) list \<Rightarrow> string \<Rightarrow> (string \<times> 'v) list" where
  "dict_del d k = filter (\<lambda>kv. fst kv \<noteq> k) d"

fun dict_set :: "(string \<times> 'v) list \<Rightarrow> string \<Rightarrow> 'v \<Rightarrow> (string \<times> 'v) list" where
  "dict_set [] k v = [(k, v)]"
| "dict_set (kv # d) k v = (if fst kv = k then (k, v) # d else kv # dict_set d k v)"

definition os_path_exists :: "world \<Rightarrow> string \<Rightarrow> bool" where
  "os_path_exists w p = (p \<in> files w)"

text \<open>\<^verbatim>\<open>os.remove(p)\<close>: raises \<^verbatim>\<open>OSError\<close> when the file is absent or cannot be deleted.\<close>

definition os_remove :: "env \<Rightarrow> world \<Rightarrow> string \<Rightarrow> (exn + unit) \<times> world" where
  "os_remove e w p =
     (if p \<in> files w \<and> can_remove e p
      then (Inr (), w\<lparr>files := files w - {p}\<rparr>)
      else (Inl OSError, w))"

text \<open>The first \<^verbatim>\<open>for\<close> loop of \<^verbatim>\<open>cleanup_old_files\<close> (lines 73-77), over the items of
  the dict, with \<^verbatim>\<open>files_to_remove\<close> as accumulator. An exception of \<^verbatim>\<open>os.remove\<close>
  leaves the loop.\<close>

fun cleanup_scan ::
  "env \<Rightarrow> (string \<times> file_info) list \<Rightarrow> string list \<Rightarrow> world \<Rightarrow> (exn + string list) \<times> world" where
  "cleanup_scan e [] files_to_remove w = (Inr files_to_remove, w)"
| "cleanup_scan e (item # items) files_to_remove w =
     (if now e - created_at (snd item) > timedelta_hours 1 then
        (if os_path_exists w (path (snd item)) then
           (case os_remove e w (path (snd item)) of
              (Inl x, w') \<Rightarrow> (Inl x, w')
            | (Inr _, w') \<Rightarrow> cleanup_scan e items (files_to_remove @ [fst item]) w')
         else cleanup_scan e items (files_to_remove @ [fst item]) w)
      else cleanup_scan e items files_to_remove w)"

text \<open>One pass of the \<^verbatim>\<open>while True\<close> loop: the \<^verbatim>\<open>try\<close> block of lines 69-80 and its
  \<^verbatim>\<open>except Exception\<close> clause. The second \<^verbatim>\<open>for\<close> loop deletes the collected keys.\<close>

definition cleanup_pass :: "env \<Rightarrow> world \<Rightarrow> world" where
  "cleanup_pass e w =
     (case cleanup_scan e (generated_files w) [] w of
        (Inr files_to_remove, w') \<Rightarrow>
          w'\<lparr>generated_files := fold (\<lambda>file_id d. dict_del d file_id) files_to_remove (generated_files w')\<rparr>
      | (Inl x, w') \<Rightarrow> logger ERROR ''Error in cleanup task'' w')"

text \<open>The loop itself never returns. Its first passes, one environment (clock reading)
  for each pass, are a fold.\<close>

fun cleanup_old_files :: "env list \<Rightarrow> world \<Rightarrow> world" where
  "cleanup_old_files [] w = w"
| "cleanup_old_files (e # es) w = cleanup_old_files es (cleanup_pass e w)"

section \<open>Responses and the download handler\<close>

datatype body =
    JsonBody json
  | FileBody string string string
  | HtmlBody

record response =
  status :: nat
  body :: body

text \<open>\<^verbatim>\<open>jsonify({...})\<close>, with the status of \<^verbatim>\<open>return jsonify(...), code\<close>.\<close>

definition jsonify :: "nat \<Rightarrow> (string \<times> json) list \<Rightarrow> response" where
  "jsonify code items = \<lparr>status = code, body = JsonBody (JDict items)\<rparr>"

definition send_file :: "file_info \<Rightarrow> response" where
  "send_file file_info =
     \<lparr>status = 200,
      body = FileBody (path file_info) (filename file_info)
        ''application/vnd.openxmlformats-officedocument.presentationml.presentation''\<rparr>"

text \<open>The \<^verbatim>\<open>try\<close> block of \<^verbatim>\<open>download_file\<close> (lines 373-394). \<^verbatim>\<open>abort(c)\<close> raises
  \<open>HTTPException c\<close>.\<close>

definition download_file_try :: "env \<Rightarrow> world \<Rightarrow> string \<Rightarrow> (exn + response) \<times> world" where
  "download_file_try e w file_id =
     (case map_of (generated_files w) file_id of
        None \<Rightarrow> (Inl (HTTPException 404), w)
      | Some file_info \<Rightarrow>
          if \<not> os_path_exists w (path file_info) then
            (Inl (HTTPException 404),
             w\<lparr>generated_files := dict_del (generated_files w) file_id\<rparr>)
          else if now e - created_at file_info > timedelta_hours 1 then
            (case os_remove e w (path file_info) of
               (Inl x, w') \<Rightarrow> (Inl x, w')
             | (Inr _, w') \<Rightarrow>
                 (Inl (HTTPException 410),
                  w'\<lparr>generated_files := dict_del (generated_files w') file_id\<rparr>))
          else (Inr (send_file file_info), w))"

text \<open>The whole view: \<^verbatim>\<open>except Exception as e: logger.error(...); abort(500)\<close> (lines
  396-398) receives every exception of the block, those of \<^verbatim>\<open>abort\<close> included.\<close>

definition download_file :: "env \<Rightarrow> world \<Rightarrow> string \<Rightarrow> (exn + response) \<times> world" where
  "download_file e w file_id =
     (case download_file_try e w file_id of
        (Inr r, w') \<Rightarrow> (Inr r, w')
      | (Inl x, w') \<Rightarrow> (Inl (HTTPException 500), logger ERROR ''Error downloading file'' w'))"

text \<open>The two registered error handlers (lines 400-406) and Flask's dispatch of an
  exception that leaves a view: an \<^verbatim>\<open>HTTPException\<close> goes to the handler registered for
  its code, or becomes werkzeug's own HTML page when there is none; any other exception
  goes to the handler for 500.\<close>

definition not_found :: response where
  "not_found = jsonify 404 [(''error'', JStr ''File not found or expired'')]"

definition internal_error :: response where
  "internal_error = jsonify 500 [(''error'', JStr ''Internal server error'')]"

fun handle_user_exception :: "exn \<Rightarrow> response" where
  "handle_user_exception (HTTPException c) =
     (if c = 404 then not_found
      else if c = 500 then internal_error
      else \<lparr>status = c, body = HtmlBody\<rparr>)"
| "handle_user_exception x = internal_error"

definition download :: "env \<Rightarrow> world \<Rightarrow> string \<Rightarrow> response \<times> world" where
  "download e w file_id =
     (case download_file e w file_id of
        (Inr r, w') \<Rightarrow> (r, w')
      | (Inl x, w') \<Rightarrow> (handle_user_exception x, w'))"

section \<open>Validation\<close>

text \<open>\<^verbatim>\<open>str.isspace\<close> on the code points below 256, and \<^verbatim>\<open>str.strip()\<close>.\<close>

definition isspace :: "char \<Rightarrow> bool" where
  "isspace c = (of_char c \<in> {9, 10, 11, 12, 13, 28, 29, 30, 31, 32, 133, 160 :: nat})"

definition strip :: "string \<Rightarrow> string" where
  "strip s = rev (dropWhile isspace (rev (dropWhile isspace s)))"

definition required_fields :: "string list" where
  "required_fields =
     [''company_name'', ''industry'', ''buyer_persona'', ''main_pain_point'', ''use_case'']"

text \<open>The \<^verbatim>\<open>for field in required_fields\<close> loop of \<^verbatim>\<open>validate_input\<close> (lines 98-100) on
  the items of the dict \<^verbatim>\<open>data\<close>. \<^verbatim>\<open>data[field].strip()\<close> exists on a \<^verbatim>\<open>str\<close> only: on
  any other JSON value it raises \<^verbatim>\<open>AttributeError\<close>.\<close>

fun check_required :: "(string \<times> json) list \<Rightarrow> string list \<Rightarrow> exn + (bool \<times> string)" where
  "check_required d [] = Inr (True, [])"
| "check_required d (field # others) =
     (case map_of d field of
        None \<Rightarrow> Inr (False, ''Missing or empty required field: '' @ field)
      | Some (JStr s) \<Rightarrow>
          if strip s = [] then Inr (False, ''Missing or empty required field: '' @ field)
          else check_required d others
      | Some _ \<Rightarrow> Inl AttributeError)"

text \<open>\<^verbatim>\<open>data[field]\<close> for a field that the loop has found to be a \<^verbatim>\<open>str\<close>.\<close>

definition str_field :: "(string \<times> json) list \<Rightarrow> string \<Rightarrow> string" where
  "str_field d field = (case map_of d field of Some (JStr s) \<Rightarrow> s | _ \<Rightarrow> [])"

definition validate_input :: "(string \<times> json) list \<Rightarrow> exn + (bool \<times> string)" where
  "validate_input d =
     (case check_required d required_fields of
        Inl x \<Rightarrow> Inl x
      | Inr (False, msg) \<Rightarrow> Inr (False, msg)
      | Inr (True, _) \<Rightarrow>
          if length (str_field d ''company_name'') > 100 then
            Inr (False, ''Company name too long (max 100 characters)'')
          else if length (str_field d ''industry'') > 100 then
            Inr (False, ''Industry too long (max 100 characters)'')
          else if length (str_field d ''buyer_persona'') > 200 then
            Inr (False, ''Buyer persona too long (max 200 characters)'')
          else if length (str_field d ''main_pain_point'') > 500 then
            Inr (False, ''Main pain point too long (max 500 characters)'')
          else if length (str_field d ''use_case'') > 500 then
            Inr (False, ''Use case too long (max 500 characters)'')
          else Inr (True, []))"

section \<open>Slide content\<close>

text \<open>\<^verbatim>\<open>get_openai_client\<close>: the client is built once and kept in the global \<^verbatim>\<open>client\<close>.\<close>

definition get_openai_client :: "env \<Rightarrow> world \<Rightarrow> (exn + unit) \<times> world" where
  "get_openai_client e w =
     (if client w then (Inr (), w)
      else case openai_init e of
        None \<Rightarrow> (Inr (), w\<lparr>client := True\<rparr>)
      | Some x \<Rightarrow> (Inl x, logger ERROR ''Failed to initialize OpenAI client'' w))"

text \<open>\<^verbatim>\<open>re.search(r'\{.*\}', content, re.DOTALL)\<close> and \<^verbatim>\<open>.group()\<close>: the match runs from
  the first opening brace to the last closing brace after it.\<close>

definition re_search_braces :: "string \<Rightarrow> string option" where
  "re_search_braces content =
     (case dropWhile (\<lambda>c. c \<noteq> CHR ''{'') content of
        [] \<Rightarrow> None
      | b # rest \<Rightarrow>
          (case rev (dropWhile (\<lambda>c. c \<noteq> CHR ''}'') (rev rest)) of
             [] \<Rightarrow> None
           | u # us \<Rightarrow> Some (b # u # us)))"

text \<open>Lines 163-172: strict decoding, then decoding of the embedded object.\<close>

definition parse_reply :: "env \<Rightarrow> string \<Rightarrow> exn + json" where
  "parse_reply e content =
     (case json_loads e content of
        Some v \<Rightarrow> Inr v
      | None \<Rightarrow>
          (case re_search_braces content of
             Some m \<Rightarrow> (case json_loads e m of Some v \<Rightarrow> Inr v | None \<Rightarrow> Inl JSONDecodeError)
           | None \<Rightarrow> Inl ValueError))"

text \<open>The \<^verbatim>\<open>try\<close> block of \<^verbatim>\<open>generate_slide_content\<close> (lines 147-172). \<open>api_calls\<close>
  counts the requests sent to the text-generation service.\<close>

definition generate_slide_content_try ::
  "env \<Rightarrow> world \<Rightarrow> string \<Rightarrow> string \<Rightarrow> string \<Rightarrow> string \<Rightarrow> string \<Rightarrow> (exn + json) \<times> world" where
  "generate_slide_content_try e w company_name industry buyer_persona main_pain_point use_case =
     (case get_openai_client e w of
        (Inl x, w') \<Rightarrow> (Inl x, w')
      | (Inr _, w') \<Rightarrow>
          (case chat_completion e company_name industry buyer_persona main_pain_point use_case of
             Inl x \<Rightarrow> (Inl x, w'\<lparr>api_calls := Suc (api_calls w')\<rparr>)
           | Inr content \<Rightarrow>
               (parse_reply e (strip content), w'\<lparr>api_calls := Suc (api_calls w')\<rparr>)))"

definition slide_json :: "string \<Rightarrow> string list \<Rightarrow> json" where
  "slide_json t bullets = JDict [(''title'', JStr t), (''content'', JList (map JStr bullets))]"

text \<open>The dict literal of the \<^verbatim>\<open>except\<close> clause (lines 177-212).\<close>

definition fallback_content :: "string \<Rightarrow> string \<Rightarrow> string \<Rightarrow> string \<Rightarrow> string \<Rightarrow> json" where
  "fallback_content company_name industry buyer_persona main_pain_point use_case =
     JDict [(''slides'', JList [
       slide_json (''Welcome to '' @ company_name)
         [''Professional solutions for '' @ industry, ''Driving innovation and growth'',
          ''Your trusted partner''],
       slide_json ''The Challenge''
         [main_pain_point, ''Industry-wide impact'', ''Need for solution''],
       slide_json ''Our Solution''
         [''Innovative approach'', ''Proven methodology'', ''Measurable results''],
       slide_json ''Product Overview''
         [''Key features'', ''Benefits'', ''Competitive advantages''],
       slide_json ''Use Case''
         [use_case, ''Implementation strategy'', ''Expected outcomes''],
       slide_json ''Success Story''
         [''Client challenge'', ''Our solution'', ''Results achieved''],
       slide_json ''Investment & ROI''
         [''Competitive pricing'', ''Clear value proposition'', ''Return on investment''],
       slide_json ''Next Steps''
         [''Schedule demo'', ''Discuss implementation'', ''Begin partnership'']])]"

definition generate_slide_content ::
  "env \<Rightarrow> world \<Rightarrow> string \<Rightarrow> string \<Rightarrow> string \<Rightarrow> string \<Rightarrow> string \<Rightarrow> json \<times> world" where
  "generate_slide_content e w company_name industry buyer_persona main_pain_point use_case =
     (case generate_slide_content_try e w company_name industry buyer_persona main_pain_point use_case of
        (Inr v, w') \<Rightarrow> (v, w')
      | (Inl x, w') \<Rightarrow>
          (fallback_content company_name industry buyer_persona main_pain_point use_case,
           logger ERROR ''Error generating content with GPT-4'' w'))"

section \<open>Rendering\<close>

text \<open>What python-pptx builds: for each slide its layout index, the title text, the
  texts of the body paragraphs and the picture placed on it, if any.\<close>

record slide =
  layout :: nat
  title :: string
  paragraphs :: "string list"
  picture :: "string option"

text \<open>Python's truth value of a JSON value, \<^verbatim>\<open>v.get(k, default)\<close> (only a dict has
  \<^verbatim>\<open>get\<close>), iteration and \<^verbatim>\<open>len\<close> (a list gives its elements, a \<^verbatim>\<open>str\<close> its characters,
  a dict its keys; nothing else is iterable or has a length).\<close>

definition truthy :: "json \<Rightarrow> bool" where
  "truthy v =
     (case v of
        JNull \<Rightarrow> False
      | JBool b \<Rightarrow> b
      | JInt i \<Rightarrow> i \<noteq> 0
      | JFloat r \<Rightarrow> r \<noteq> 0
      | JStr s \<Rightarrow> s \<noteq> []
      | JList xs \<Rightarrow> xs \<noteq> []
      | JDict d \<Rightarrow> d \<noteq> [])"

definition py_get :: "json \<Rightarrow> string \<Rightarrow> json \<Rightarrow> exn + json" where
  "py_get v k dflt =
     (case v of
        JDict d \<Rightarrow> Inr (case map_of d k of Some x \<Rightarrow> x | None \<Rightarrow> dflt)
      | _ \<Rightarrow> Inl AttributeError)"

definition py_iter :: "json \<Rightarrow> exn + json list" where
  "py_iter v =
     (case v of
        JList xs \<Rightarrow> Inr xs
      | JStr s \<Rightarrow> Inr (map (\<lambda>c. JStr [c]) s)
      | JDict d \<Rightarrow> Inr (map (\<lambda>kv. JStr (fst kv)) d)
      | _ \<Rightarrow> Inl TypeError)"

definition py_len :: "json \<Rightarrow> exn + nat" where
  "py_len v =
     (case v of
        JList xs \<Rightarrow> Inr (length xs)
      | JStr s \<Rightarrow> Inr (length s)
      | JDict d \<Rightarrow> Inr (length d)
      | _ \<Rightarrow> Inl TypeError)"

text \<open>Assigning to \<^verbatim>\<open>.text\<close> of a python-pptx shape or paragraph: the library takes a
  \<^verbatim>\<open>str\<close> and raises on any other value.\<close>

definition set_text :: "json \<Rightarrow> exn + string" where
  "set_text v = (case v of JStr s \<Rightarrow> Inr s | _ \<Rightarrow> Inl TypeError)"

text \<open>The loop over \<^verbatim>\<open>content_items\<close> (lines 250-259).\<close>

fun add_paragraphs :: "json list \<Rightarrow> exn + string list" where
  "add_paragraphs [] = Inr []"
| "add_paragraphs (item # items) =
     (case set_text item of
        Inl x \<Rightarrow> Inl x
      | Inr s \<Rightarrow> (case add_paragraphs items of Inl x \<Rightarrow> Inl x | Inr ps \<Rightarrow> Inr (s # ps)))"

text \<open>Lines 262-266: the logo goes on the first slide when \<^verbatim>\<open>logo_path\<close> is set and
  the file exists; a failure of \<^verbatim>\<open>add_picture\<close> is logged as a warning.\<close>

definition add_logo :: "env \<Rightarrow> world \<Rightarrow> string option \<Rightarrow> nat \<Rightarrow> string option \<times> world" where
  "add_logo e w logo_path i =
     (case logo_path of
        None \<Rightarrow> (None, w)
      | Some p \<Rightarrow>
          if i = 0 \<and> p \<noteq> [] \<and> os_path_exists w p then
            (if add_picture_ok e p then (Some p, w)
             else (None, logger WARNING ''Could not add logo'' w))
          else (None, w))"

text \<open>The body of the loop over the slides (lines 226-266) for slide number \<open>i\<close>. Slides
  after the first use layout 1, which has a title and a body placeholder, so
  \<^verbatim>\<open>len(slide.shapes) > 1\<close> holds for them.\<close>

definition render_slide ::
  "env \<Rightarrow> world \<Rightarrow> string option \<Rightarrow> nat \<Rightarrow> json \<Rightarrow> (exn + slide) \<times> world" where
  "render_slide e w logo_path i slide_content =
     (case py_get slide_content ''title'' (JStr []) of
        Inl x \<Rightarrow> (Inl x, w)
      | Inr t \<Rightarrow>
          (case set_text t of
             Inl x \<Rightarrow> (Inl x, w)
           | Inr title_text \<Rightarrow>
               (case (if i > 0 then
                        (case py_get slide_content ''content'' (JList []) of
                           Inl x \<Rightarrow> Inl x
                         | Inr content_items \<Rightarrow>
                             (case py_iter content_items of
                                Inl x \<Rightarrow> Inl x
                              | Inr items \<Rightarrow> add_paragraphs items))
                      else Inr []) of
                  Inl x \<Rightarrow> (Inl x, w)
                | Inr ps \<Rightarrow>
                    (case add_logo e w logo_path i of
                       (pic, w') \<Rightarrow>
                         (Inr \<lparr>layout = (if i = 0 then 0 else 1), title = title_text,
                               paragraphs = ps, picture = pic\<rparr>, w')))))"

fun render_slides ::
  "env \<Rightarrow> world \<Rightarrow> string option \<Rightarrow> nat \<Rightarrow> json list \<Rightarrow> (exn + slide list) \<times> world" where
  "render_slides e w logo_path i [] = (Inr [], w)"
| "render_slides e w logo_path i (slide_content # more_slides) =
     (case render_slide e w logo_path i slide_content of
        (Inl x, w') \<Rightarrow> (Inl x, w')
      | (Inr s, w') \<Rightarrow>
          (case render_slides e w' logo_path (Suc i) more_slides of
             (Inl x, w'') \<Rightarrow> (Inl x, w'')
           | (Inr ss, w'') \<Rightarrow> (Inr (s # ss), w'')))"

text \<open>\<^verbatim>\<open>create_powerpoint\<close>: the \<^verbatim>\<open>try\<close> block, and the \<^verbatim>\<open>except\<close> clause that logs
  and raises again.\<close>

definition create_powerpoint ::
  "env \<Rightarrow> world \<Rightarrow> json \<Rightarrow> string \<Rightarrow> string option \<Rightarrow> (exn + slide list) \<times> world" where
  "create_powerpoint e w slide_data company_name logo_path =
     (case (case py_get slide_data ''slides'' (JList []) of
              Inl x \<Rightarrow> (Inl x, w)
            | Inr slides_content \<Rightarrow>
                (case py_iter slides_content of
                   Inl x \<Rightarrow> (Inl x, w)
                 | Inr items \<Rightarrow> render_slides e w logo_path 0 items)) of
        (Inl x, w') \<Rightarrow> (Inl x, logger ERROR ''Error creating PowerPoint'' w')
      | (Inr prs, w') \<Rightarrow> (Inr prs, w'))"

section \<open>The logo\<close>

text \<open>\<^verbatim>\<open>base64_data.split(',')[1]\<close> for a string with a comma: the text between the first
  comma and the next one.\<close>

definition after_comma :: "string \<Rightarrow> string" where
  "after_comma s =
     takeWhile (\<lambda>c. c \<noteq> CHR '','') (tl (dropWhile (\<lambda>c. c \<noteq> CHR '','') s))"

text \<open>The \<^verbatim>\<open>try\<close> block of \<^verbatim>\<open>save_base64_image\<close> (lines 277-287). On a value that is
  not a \<^verbatim>\<open>str\<close>, the membership test, \<^verbatim>\<open>split\<close> or \<^verbatim>\<open>b64decode\<close> raises.\<close>

definition save_base64_image_try ::
  "env \<Rightarrow> world \<Rightarrow> json \<Rightarrow> string \<Rightarrow> (exn + string) \<times> world" where
  "save_base64_image_try e w base64_data fname =
     (case base64_data of
        JStr s \<Rightarrow>
          (case b64decode e (if CHR '','' \<in> set s then after_comma s else s) of
             None \<Rightarrow> (Inl BinasciiError, w)
           | Some image_data \<Rightarrow>
               if can_write e (os_path_join UPLOAD_FOLDER fname) then
                 (Inr (os_path_join UPLOAD_FOLDER fname),
                  w\<lparr>files := insert (os_path_join UPLOAD_FOLDER fname) (files w)\<rparr>)
               else (Inl OSError, w))
      | _ \<Rightarrow> (Inl TypeError, w))"

definition save_base64_image ::
  "env \<Rightarrow> world \<Rightarrow> json \<Rightarrow> string \<Rightarrow> string option \<times> world" where
  "save_base64_image e w base64_data fname =
     (case save_base64_image_try e w base64_data fname of
        (Inr filepath, w') \<Rightarrow> (Some filepath, w')
      | (Inl x, w') \<Rightarrow> (None, logger ERROR ''Error saving base64 image'' w'))"

section \<open>The generate-deck handler\<close>

text \<open>The request as the view reads it: \<^verbatim>\<open>request.is_json\<close>, and the value of
  \<^verbatim>\<open>request.get_json()\<close> (\<open>None\<close>: the body is not JSON and werkzeug raises
  \<^verbatim>\<open>BadRequest\<close>, the \<^verbatim>\<open>HTTPException\<close> of code 400).\<close>

record request =
  is_json :: bool
  get_json :: "json option"

definition deck_filename :: "string \<Rightarrow> string \<Rightarrow> string" where
  "deck_filename company_name file_id =
     ''sales_deck_'' @ map (\<lambda>c. if c = CHR '' '' then CHR ''_'' else c) company_name
       @ ''_'' @ file_id @ ''.pptx''"

text \<open>\<^verbatim>\<open>prs.save(filepath)\<close>, and lines 350-352, which delete the logo file.\<close>

definition prs_save :: "env \<Rightarrow> world \<Rightarrow> string \<Rightarrow> (exn + unit) \<times> world" where
  "prs_save e w filepath =
     (if can_write e filepath then (Inr (), w\<lparr>files := insert filepath (files w)\<rparr>)
      else (Inl OSError, w))"

definition remove_logo :: "env \<Rightarrow> world \<Rightarrow> string option \<Rightarrow> (exn + unit) \<times> world" where
  "remove_logo e w logo_path =
     (case logo_path of
        None \<Rightarrow> (Inr (), w)
      | Some p \<Rightarrow> if p \<noteq> [] \<and> os_path_exists w p then os_remove e w p else (Inr (), w))"

text \<open>The reply of lines 356-363; \<^verbatim>\<open>len(slide_data.get('slides', []))\<close> is evaluated
  here.\<close>

definition deck_response :: "env \<Rightarrow> json \<Rightarrow> string \<Rightarrow> exn + response" where
  "deck_response e slide_data fname =
     (case py_get slide_data ''slides'' (JList []) of
        Inl x \<Rightarrow> Inl x
      | Inr slides_content \<Rightarrow>
          (case py_len slides_content of
             Inl x \<Rightarrow> Inl x
           | Inr n \<Rightarrow>
               Inr (jsonify 200
                 [(''success'', JBool True),
                  (''file_id'', JStr (uuid4_str e)),
                  (''download_url'', JStr (''/download/'' @ uuid4_str e)),
                  (''filename'', JStr fname),
                  (''slides_generated'', JInt (int n)),
                  (''expires_at'', JStr (isoformat e (now e + timedelta_hours 1)))])))"

text \<open>Lines 336-363: saving the presentation, registering it, removing the logo file and
  building the reply.\<close>

definition store_deck ::
  "env \<Rightarrow> world \<Rightarrow> json \<Rightarrow> string \<Rightarrow> string option \<Rightarrow> (exn + response) \<times> world" where
  "store_deck e w slide_data company_name logo_path =
     (let file_id = uuid4_str e;
          fname = deck_filename company_name file_id;
          filepath = os_path_join UPLOAD_FOLDER fname
      in case prs_save e w filepath of
           (Inl x, w1) \<Rightarrow> (Inl x, w1)
         | (Inr _, w1) \<Rightarrow>
             (case remove_logo e
                     (w1\<lparr>generated_files := dict_set (generated_files w1) file_id
                            \<lparr>path = filepath, filename = fname, created_at = now e\<rparr>\<rparr>)
                     logo_path of
                (Inl x, w2) \<Rightarrow> (Inl x, w2)
              | (Inr _, w2) \<Rightarrow>
                  (deck_response e slide_data fname,
                   logger INFO ''Successfully generated deck'' w2)))"

text \<open>Lines 328-363: content generation, rendering, and \<open>store_deck\<close>, for a dict
  \<open>d\<close> that has passed validation and the path of the saved logo, if any.\<close>

definition render_and_store ::
  "env \<Rightarrow> world \<Rightarrow> (string \<times> json) list \<Rightarrow> string option \<Rightarrow> (exn + response) \<times> world" where
  "render_and_store e w d logo_path =
     (case generate_slide_content e
             (logger INFO ''Generating slide content with GPT-4...'' w)
             (strip (str_field d ''company_name'')) (strip (str_field d ''industry''))
             (strip (str_field d ''buyer_persona''))
             (strip (str_field d ''main_pain_point'')) (strip (str_field d ''use_case'')) of
        (slide_data, w2) \<Rightarrow>
          (case create_powerpoint e
                  (logger INFO ''Creating PowerPoint presentation...'' w2)
                  slide_data (strip (str_field d ''company_name'')) logo_path of
             (Inl x, w3) \<Rightarrow> (Inl x, w3)
           | (Inr prs, w3) \<Rightarrow>
               store_deck e w3 slide_data (strip (str_field d ''company_name'')) logo_path))"

text \<open>Lines 314-326 for a dict \<open>d\<close> that has passed validation: the logo, when
  \<^verbatim>\<open>logo_base64\<close> is present and true, is saved first.\<close>

definition generate_deck_valid ::
  "env \<Rightarrow> world \<Rightarrow> (string \<times> json) list \<Rightarrow> (exn + response) \<times> world" where
  "generate_deck_valid e w d =
     (case (if truthy (case map_of d ''logo_base64'' of Some v \<Rightarrow> v | None \<Rightarrow> JStr [])
            then save_base64_image e w
                   (case map_of d ''logo_base64'' of Some v \<Rightarrow> v | None \<Rightarrow> JStr [])
                   (''logo_'' @ uuid4_hex e @ ''.png'')
            else (None, w)) of
        (logo_path, w1) \<Rightarrow> render_and_store e w1 d logo_path)"

text \<open>The \<^verbatim>\<open>try\<close> block of \<^verbatim>\<open>generate_deck\<close>. \<^verbatim>\<open>data.get\<close> in the first log message
  needs \<^verbatim>\<open>data\<close> to be a dict.\<close>

definition generate_deck_try :: "env \<Rightarrow> world \<Rightarrow> request \<Rightarrow> (exn + response) \<times> world" where
  "generate_deck_try e w req =
     (if \<not> is_json req then
        (Inr (jsonify 400 [(''error'', JStr ''Content-Type must be application/json'')]), w)
      else
        (case get_json req of
           None \<Rightarrow> (Inl (HTTPException 400), w)
         | Some (JDict d) \<Rightarrow>
             (case validate_input d of
                Inl x \<Rightarrow> (Inl x, logger INFO ''Received request to generate deck'' w)
              | Inr (False, error_msg) \<Rightarrow>
                  (Inr (jsonify 400 [(''error'', JStr error_msg)]),
                   logger INFO ''Received request to generate deck'' w)
              | Inr (True, _) \<Rightarrow>
                  generate_deck_valid e (logger INFO ''Received request to generate deck'' w) d)
         | Some _ \<Rightarrow> (Inl AttributeError, w)))"

text \<open>The view with its \<^verbatim>\<open>except Exception\<close> clause (lines 365-367).\<close>

definition generate_deck :: "env \<Rightarrow> world \<Rightarrow> request \<Rightarrow> response \<times> world" where
  "generate_deck e w req =
     (case generate_deck_try e w req of
        (Inr r, w') \<Rightarrow> (r, w')
      | (Inl x, w') \<Rightarrow>
          (jsonify 500 [(''error'', JStr (''Internal server error: '' @ str_exc e x))],
           logger ERROR ''Error generating deck'' w'))"


section \<open>Routing\<close>

text \<open>The request as Flask's router sees it: the method, the rule that the URL matches, if
  any, and what the view reads from the request. The application declares three rules,
  \<^verbatim>\<open>/health\<close> and \<^verbatim>\<open>/download/<file_id>\<close> with \<^verbatim>\<open>methods=['GET']\<close> and \<^verbatim>\<open>/generate-deck\<close> with
  \<^verbatim>\<open>methods=['POST']\<close>. For a URL that matches no rule the router raises \<^verbatim>\<open>NotFound\<close>
  (code 404); for a URL that matches a rule and a method that the rule does not declare
  it raises \<^verbatim>\<open>MethodNotAllowed\<close> (code 405). Both are \<^verbatim>\<open>HTTPException\<close>s and are rendered by
  \<open>handle_user_exception\<close>. The methods \<^verbatim>\<open>HEAD\<close> and \<^verbatim>\<open>OPTIONS\<close>, which Flask answers by
  itself for every rule, are left out.\<close>

datatype http_method = GET | POST | PUT | PATCH | DELETE




section \<open>Properties of responses and concrete inputs\<close>

text \<open>A response is a JSON object with a string under the key \<^verbatim>\<open>error\<close>.\<close>

definition is_error_json :: "response \<Rightarrow> bool" where
  "is_error_json r =
     (case body r of
        JsonBody (JDict items) \<Rightarrow>
          (case map_of items ''error'' of Some (JStr msg) \<Rightarrow> True | _ \<Rightarrow> False)
      | _ \<Rightarrow> False)"

text \<open>The value under a key of a JSON response.\<close>

definition response_field :: "response \<Rightarrow> string \<Rightarrow> json option" where
  "response_field r k = (case body r of JsonBody (JDict items) \<Rightarrow> map_of items k | _ \<Rightarrow> None)"

text \<open>\<^verbatim>\<open>len(slide_data.get('slides', []))\<close> as a JSON number, when it has a value.\<close>

definition slides_count :: "json \<Rightarrow> json option" where
  "slides_count sd =
     (case py_get sd ''slides'' (JList []) of
        Inl x \<Rightarrow> None
      | Inr sl \<Rightarrow> (case py_len sl of Inl x \<Rightarrow> None | Inr n \<Rightarrow> Some (JInt (int n))))"

text \<open>\<^verbatim>\<open>current_time - file_info['created_at'] > timedelta(hours=1)\<close>, the test of both the
  cleanup pass and the download handler.\<close>

definition expired :: "env \<Rightarrow> file_info \<Rightarrow> bool" where
  "expired e file_info = (now e - created_at file_info > timedelta_hours 1)"

text \<open>Two worlds agree on everything but the log.\<close>

definition same_state :: "world \<Rightarrow> world \<Rightarrow> bool" where
  "same_state w1 w2 =
     (generated_files w1 = generated_files w2 \<and> files w1 = files w2
      \<and> client w1 = client w2 \<and> api_calls w1 = api_calls w2)"


text \<open>What \<^verbatim>\<open>base64.b64decode(s)\<close> does when it is called without \<^verbatim>\<open>validate\<close>, as line 281
  calls it (CPython's \<^verbatim>\<open>binascii.a2b_base64\<close>). Characters outside the base64 alphabet are
  skipped. A \<^verbatim>\<open>=\<close> ends the data when it completes a group of four, and is skipped otherwise.
  At the end of the text a group of one, two or three characters that has not been
  completed makes the decoder raise \<^verbatim>\<open>binascii.Error\<close>. A \<^verbatim>\<open>str\<close> with a character that is
  not ASCII is refused before decoding. The arguments of \<open>a2b_base64\<close> are the position
  in the group of four, the bits left over from the characters before, and the number of
  \<^verbatim>\<open>=\<close> seen since the last character of the alphabet.\<close>

definition b64_value :: "char \<Rightarrow> nat option" where
  "b64_value c =
     (if 65 \<le> (of_char c :: nat) \<and> (of_char c :: nat) \<le> 90 then Some (of_char c - 65)
      else if 97 \<le> (of_char c :: nat) \<and> (of_char c :: nat) \<le> 122 then Some (of_char c - 71)
      else if 48 \<le> (of_char c :: nat) \<and> (of_char c :: nat) \<le> 57 then Some (of_char c + 4)
      else if c = CHR ''+'' then Some 62
      else if c = CHR ''/'' then Some 63
      else None)"

fun a2b_base64 :: "nat \<Rightarrow> nat \<Rightarrow> nat \<Rightarrow> string \<Rightarrow> string option" where
  "a2b_base64 quad_pos leftchar pads [] = (if quad_pos = 0 then Some [] else None)"
| "a2b_base64 quad_pos leftchar pads (c # cs) =
     (if c = CHR ''='' then
        (if 2 \<le> quad_pos then
           (if 4 \<le> quad_pos + (pads + 1) then Some []
            else a2b_base64 quad_pos leftchar (pads + 1) cs)
         else a2b_base64 quad_pos leftchar pads cs)
      else
        (case b64_value c of
           None \<Rightarrow> a2b_base64 quad_pos leftchar pads cs
         | Some v \<Rightarrow>
             if quad_pos = 0 then a2b_base64 1 v 0 cs
             else if quad_pos = 1 then
               map_option (Cons (char_of (leftchar * 4 + v div 16))) (a2b_base64 2 (v mod 16) 0 cs)
             else if quad_pos = 2 then
               map_option (Cons (char_of (leftchar * 16 + v div 4))) (a2b_base64 3 (v mod 4) 0 cs)
             else
               map_option (Cons (char_of (leftchar * 64 + v))) (a2b_base64 0 0 0 cs)))"

definition base64_b64decode :: "string \<Rightarrow> string option" where
  "base64_b64decode s =
     (if list_all (\<lambda>c. (of_char c :: nat) < 128) s then a2b_base64 0 0 0 s else None)"

text \<open>Concrete inputs for the examples below. In \<open>env0\<close> the clock stands two hours
  after time 0, every file operation succeeds, the text-generation service is down,
  \<^verbatim>\<open>json.loads\<close> accepts the text \<^verbatim>\<open>{}\<close> (the empty object), \<^verbatim>\<open>b64decode\<close> is the decoder
  above, and no logo file is a picture that python-pptx can place.\<close>

definition env0 :: env where
  "env0 =
     \<lparr>now = 7200000000,
      uuid4_hex = ''0f'',
      uuid4_str = ''id-1'',
      b64decode = base64_b64decode,
      json_loads = (\<lambda>s. if s = ''{}'' then Some (JDict []) else None),
      openai_init = None,
      chat_completion = (\<lambda>company_name industry buyer_persona main_pain_point use_case.
         Inl OpenAIError),
      can_write = (\<lambda>p. True),
      can_remove = (\<lambda>p. True),
      add_picture_ok = (\<lambda>p. False),
      isoformat = (\<lambda>t. ''time''),
      str_exc = (\<lambda>x. ''message'')\<rparr>"

text \<open>The service answers with the text \<^verbatim>\<open>{}\<close>.\<close>

definition env_reply :: env where
  "env_reply =
     env0\<lparr>chat_completion := (\<lambda>company_name industry buyer_persona main_pain_point use_case.
       Inr ''{}'')\<rparr>"

text \<open>The file of record \<^verbatim>\<open>b\<close> cannot be deleted.\<close>

definition env_locked :: env where
  "env_locked = env0\<lparr>can_remove := (\<lambda>p. p \<noteq> ''temp_files/b.pptx'')\<rparr>"

definition world0 :: world where
  "world0 = \<lparr>generated_files = [], files = {}, client = False, api_calls = 0, log_entries = []\<rparr>"

definition info_a :: file_info where
  "info_a = \<lparr>path = ''temp_files/a.pptx'', filename = ''a.pptx'', created_at = 0\<rparr>"

definition info_b :: file_info where
  "info_b = \<lparr>path = ''temp_files/b.pptx'', filename = ''b.pptx'', created_at = 0\<rparr>"

definition info_c :: file_info where
  "info_c = \<lparr>path = ''temp_files/c.pptx'', filename = ''c.pptx'', created_at = 0\<rparr>"

definition info_new :: file_info where
  "info_new = \<lparr>path = ''temp_files/n.pptx'', filename = ''n.pptx'', created_at = 7000000000\<rparr>"

text \<open>Record \<^verbatim>\<open>a\<close> is registered but its file is gone.\<close>

definition world_missing :: world where
  "world_missing = world0\<lparr>generated_files := [(''a'', info_a)]\<rparr>"

text \<open>Record \<^verbatim>\<open>a\<close> is two hours old and its file is on disk.\<close>

definition world_expired :: world where
  "world_expired = world0\<lparr>generated_files := [(''a'', info_a)], files := {''temp_files/a.pptx''}\<rparr>"

text \<open>Three records, all two hours old, all with their file on disk.\<close>

definition world_three :: world where
  "world_three =
     world0\<lparr>generated_files := [(''a'', info_a), (''b'', info_b), (''c'', info_c)],
            files := {''temp_files/a.pptx'', ''temp_files/b.pptx'', ''temp_files/c.pptx''}\<rparr>"

text \<open>One expired and one fresh record.\<close>

definition world_two :: world where
  "world_two =
     world0\<lparr>generated_files := [(''a'', info_a), (''n'', info_new)],
            files := {''temp_files/a.pptx'', ''temp_files/n.pptx''}\<rparr>"

definition valid_fields :: "(string \<times> json) list" where
  "valid_fields =
     [(''company_name'', JStr ''Acme''), (''industry'', JStr ''Retail''),
      (''buyer_persona'', JStr ''CTO''), (''main_pain_point'', JStr ''Churn''),
      (''use_case'', JStr ''Onboarding'')]"

definition post :: "(string \<times> json) list \<Rightarrow> request" where
  "post d = \<lparr>is_json = True, get_json = Some (JDict d)\<rparr>"

section \<open>The store: download and cleanup\<close>

lemmas fixture_defs = env0_def env_reply_def env_locked_def world0_def info_a_def info_b_def
  info_c_def info_new_def world_missing_def world_expired_def world_three_def world_two_def
  valid_fields_def post_def

lemmas download_defs = download_def download_file_def download_file_try_def
  os_path_exists_def os_remove_def dict_del_def logger_def timedelta_hours_def
  internal_error_def not_found_def jsonify_def

text \<open>
  C1 (download: 404 for an unknown identifier and for a missing file, 410 for an expired
  record, 404 on the fetch after that). The handler raises these codes with
  \<^verbatim>\<open>abort\<close> inside its own \<^verbatim>\<open>try\<close> block, whose \<^verbatim>\<open>except Exception\<close> clause catches
  them and calls \<^verbatim>\<open>abort(500)\<close>. The evictions happen as the claim says, but the client
  receives status 500 in all four situations: an unknown identifier, a record whose file
  is gone (the record is removed), an expired record (file deleted, record removed), and
  the next fetch of that identifier.
\<close>

theorem download_answers_500:
  "status (fst (download env0 world0 ''nope'')) = 500
   \<and> status (fst (download env0 world_missing ''a'')) = 500
   \<and> generated_files (snd (download env0 world_missing ''a'')) = []
   \<and> status (fst (download env0 world_expired ''a'')) = 500
   \<and> generated_files (snd (download env0 world_expired ''a'')) = []
   \<and> files (snd (download env0 world_expired ''a'')) = {}
   \<and> status (fst (download env0 (snd (download env0 world_expired ''a'')) ''a'')) = 500"
  by (simp add: download_defs fixture_defs)

text \<open>The first loop of a pass when no deletion fails: it collects the keys of the expired
  records in order and deletes their files.\<close>

lemma cleanup_scan_removable:
  "list_all (\<lambda>kv. expired e (snd kv) \<longrightarrow> can_remove e (path (snd kv))) items \<Longrightarrow>
   cleanup_scan e items rm w =
     (Inr (rm @ map fst (filter (\<lambda>kv. expired e (snd kv)) items)),
      w\<lparr>files := files w
           - set (map (\<lambda>kv. path (snd kv)) (filter (\<lambda>kv. expired e (snd kv)) items))\<rparr>)"
proof (induction items arbitrary: rm w)
  case Nil
  then show ?case by simp
next
  case (Cons item items)
  have rest: "list_all (\<lambda>kv. expired e (snd kv) \<longrightarrow> can_remove e (path (snd kv))) items"
    using Cons.prems by simp
  show ?case
  proof (cases "expired e (snd item)")
    case False
    then show ?thesis
      using Cons.IH [OF rest] by (auto simp: expired_def)
  next
    case True
    then have rmv: "can_remove e (path (snd item))" using Cons.prems by simp
    show ?thesis
    proof (cases "path (snd item) \<in> files w")
      case True
      with \<open>expired e (snd item)\<close> rmv show ?thesis
        using Cons.IH [OF rest]
        by (auto simp: expired_def os_path_exists_def os_remove_def intro!: world.equality)
    next
      case False
      with \<open>expired e (snd item)\<close> show ?thesis
        using Cons.IH [OF rest]
        by (auto simp: expired_def os_path_exists_def intro!: world.equality)
    qed
  qed
qed

lemma cleanup_scan_append:
  "cleanup_scan e (xs @ ys) rm w =
     (case cleanup_scan e xs rm w of
        (Inl x, w') \<Rightarrow> (Inl x, w')
      | (Inr rm', w') \<Rightarrow> cleanup_scan e ys rm' w')"
  by (induction xs arbitrary: rm w) (auto split: prod.splits sum.splits)

lemma fold_dict_del:
  "fold (\<lambda>file_id d. dict_del d file_id) ks d = filter (\<lambda>kv. fst kv \<notin> set ks) d"
  by (induction ks arbitrary: d) (auto simp: dict_del_def intro: filter_cong)

lemma cleanup_pass_removable:
  assumes "list_all (\<lambda>kv. expired e (snd kv) \<longrightarrow> can_remove e (path (snd kv)))
             (generated_files w)"
  shows "cleanup_pass e w =
     w\<lparr>generated_files :=
          filter (\<lambda>kv. fst kv \<notin> set (map fst
                    (filter (\<lambda>kv. expired e (snd kv)) (generated_files w))))
            (generated_files w),
       files := files w
          - set (map (\<lambda>kv. path (snd kv))
              (filter (\<lambda>kv. expired e (snd kv)) (generated_files w)))\<rparr>"
  by (simp add: cleanup_pass_def cleanup_scan_removable [OF assms] fold_dict_del)

text \<open>
  C6: for a store that holds one expired record \<open>(i1, r1)\<close> and one record \<open>(i2, r2)\<close>
  that is not expired, in either order, one cleanup pass leaves exactly \<open>(i2, r2)\<close> in
  the mapping and deletes exactly the file of \<open>r1\<close>; the file of \<open>r2\<close> is on disk after
  the pass if and only if it was before. The two records have different identifiers and
  different paths (the path of a registered deck contains its identifier), and the
  operating system does not refuse the deletion.
\<close>

theorem cleanup_pass_one_expired_one_fresh:
  assumes store: "generated_files w = [(i1, r1), (i2, r2)]
                  \<or> generated_files w = [(i2, r2), (i1, r1)]"
    and ids: "i1 \<noteq> i2"
    and old: "expired e r1"
    and fresh: "\<not> expired e r2"
    and paths: "path r1 \<noteq> path r2"
    and removable: "can_remove e (path r1)"
  shows "generated_files (cleanup_pass e w) = [(i2, r2)]
     \<and> files (cleanup_pass e w) = files w - {path r1}
     \<and> (path r2 \<in> files (cleanup_pass e w)) = (path r2 \<in> files w)"
proof -
  have ok: "list_all (\<lambda>kv. expired e (snd kv) \<longrightarrow> can_remove e (path (snd kv)))
              (generated_files w)"
    using store old fresh removable by auto
  from store show ?thesis
  proof
    assume "generated_files w = [(i1, r1), (i2, r2)]"
    then show ?thesis
      unfolding cleanup_pass_removable [OF ok]
      using ids paths old fresh by simp
  next
    assume "generated_files w = [(i2, r2), (i1, r1)]"
    then show ?thesis
      unfolding cleanup_pass_removable [OF ok]
      using ids paths old fresh by simp
  qed
qed

text \<open>The store of \<open>world_two\<close>: record \<^verbatim>\<open>a\<close> is two hours old, record \<^verbatim>\<open>n\<close> is 200
  seconds old.\<close>

theorem cleanup_pass_one_expired_one_fresh_witness:
  "expired env0 info_a \<and> \<not> expired env0 info_new
     \<and> generated_files (cleanup_pass env0 world_two) = [(''n'', info_new)]
     \<and> files (cleanup_pass env0 world_two) = {''temp_files/n.pptx''}
     \<and> ''temp_files/n.pptx'' \<in> files (cleanup_pass env0 world_two)"
  using cleanup_pass_one_expired_one_fresh
    [of world_two "''a''" info_a "''n''" info_new env0]
  by (simp add: fixture_defs expired_def timedelta_hours_def)

text \<open>
  C5 as stated fails: in \<open>world_three\<close> the records \<^verbatim>\<open>a\<close>, \<^verbatim>\<open>b\<close>, \<^verbatim>\<open>c\<close> are all expired
  and the file of \<^verbatim>\<open>b\<close> cannot be deleted. After the pass the entry of \<^verbatim>\<open>b\<close> is still in
  the mapping, and record \<^verbatim>\<open>c\<close> has not been processed: its entry and its file are
  still there.
\<close>

theorem cleanup_pass_stops_at_failure:
  "map_of (generated_files (cleanup_pass env_locked world_three)) ''b'' = Some info_b
   \<and> map_of (generated_files (cleanup_pass env_locked world_three)) ''c'' = Some info_c
   \<and> ''temp_files/c.pptx'' \<in> files (cleanup_pass env_locked world_three)"
  by (simp add: cleanup_pass_def download_defs fixture_defs)

text \<open>
  C5, amended: the \<^verbatim>\<open>try\<close> block encloses the whole pass. When \<^verbatim>\<open>os.remove\<close> fails on
  the file of an expired record \<open>(k, r)\<close>, and the expired records before it could be
  deleted, the pass ends there: the error is logged once, no entry is removed from the
  mapping, the files of the expired records before \<open>(k, r)\<close> are gone, and nothing after
  \<open>(k, r)\<close> is touched.
\<close>

theorem cleanup_pass_remove_failure:
  assumes store: "generated_files w = before @ (k, r) # after"
    and earlier: "list_all (\<lambda>kv. expired e (snd kv) \<longrightarrow> can_remove e (path (snd kv))) before"
    and old: "expired e r"
    and on_disk: "path r \<in> files w"
    and locked: "\<not> can_remove e (path r)"
  shows "generated_files (cleanup_pass e w) = generated_files w
     \<and> files (cleanup_pass e w) = files w
          - set (map (\<lambda>kv. path (snd kv)) (filter (\<lambda>kv. expired e (snd kv)) before))
     \<and> log_entries (cleanup_pass e w) = log_entries w @ [(ERROR, ''Error in cleanup task'')]"
proof -
  let ?w1 = "w\<lparr>files := files w
      - set (map (\<lambda>kv. path (snd kv)) (filter (\<lambda>kv. expired e (snd kv)) before))\<rparr>"
  have still: "path r \<in> files ?w1"
    using on_disk locked earlier by (auto simp: list_all_iff)
  have "cleanup_scan e (generated_files w) [] w = (Inl OSError, ?w1)"
    unfolding store cleanup_scan_append cleanup_scan_removable [OF earlier]
    using old still locked
    by (simp add: expired_def os_path_exists_def os_remove_def)
  then show ?thesis
    by (simp add: cleanup_pass_def logger_def)
qed

theorem cleanup_pass_remove_failure_witness:
  "expired env_locked info_b \<and> \<not> can_remove env_locked (path info_b)
     \<and> generated_files (cleanup_pass env_locked world_three) = generated_files world_three
     \<and> files (cleanup_pass env_locked world_three)
         = {''temp_files/b.pptx'', ''temp_files/c.pptx''}
     \<and> log_entries (cleanup_pass env_locked world_three) = [(ERROR, ''Error in cleanup task'')]"
  using cleanup_pass_remove_failure
    [of world_three "[(''a'', info_a)]" "''b''" info_b "[(''c'', info_c)]" env_locked]
  by (simp add: fixture_defs expired_def timedelta_hours_def)

section \<open>The handlers: error responses and validation\<close>

lemma deck_response_status:
  "deck_response e sd fname = Inr r \<Longrightarrow> status r = 200"
  by (auto simp: deck_response_def jsonify_def split: sum.splits)













lemma strip_Nil [simp]: "strip [] = []"
  by (simp add: strip_def)

lemma check_required_strings:
  assumes "\<forall>f\<in>set fs. \<forall>v. map_of d f = Some v \<longrightarrow> (\<exists>s. v = JStr s)"
  shows "\<exists>b msg. check_required d fs = Inr (b, msg)"
  using assms by (induction fs) (auto split: option.splits json.splits)

lemma check_required_bad:
  assumes "\<forall>f\<in>set fs. \<forall>v. map_of d f = Some v \<longrightarrow> (\<exists>s. v = JStr s)"
    and "\<exists>f\<in>set fs. map_of d f = None \<or> strip (str_field d f) = []"
  shows "\<exists>msg. check_required d fs = Inr (False, msg)"
  using assms
proof (induction fs)
  case Nil
  then show ?case by simp
next
  case (Cons f fs)
  show ?case
  proof (cases "map_of d f")
    case None
    then show ?thesis by simp
  next
    case (Some v)
    then obtain s where v: "v = JStr s" using Cons.prems(1) by auto
    show ?thesis
    proof (cases "strip s = []")
      case True
      then show ?thesis using Some v by simp
    next
      case False
      then have "\<exists>g\<in>set fs. map_of d g = None \<or> strip (str_field d g) = []"
        using Cons.prems(2) Some v by (auto simp: str_field_def)
      then show ?thesis
        using Cons.IH Cons.prems(1) Some v False by simp
    qed
  qed
qed

lemma validate_input_bad:
  assumes strs: "\<forall>f\<in>set required_fields. \<forall>v. map_of d f = Some v \<longrightarrow> (\<exists>s. v = JStr s)"
    and bad: "(\<exists>f\<in>set required_fields. map_of d f = None \<or> strip (str_field d f) = [])
        \<or> length (str_field d ''company_name'') > 100
        \<or> length (str_field d ''industry'') > 100
        \<or> length (str_field d ''buyer_persona'') > 200
        \<or> length (str_field d ''main_pain_point'') > 500
        \<or> length (str_field d ''use_case'') > 500"
  shows "\<exists>msg. validate_input d = Inr (False, msg)"
proof (cases "\<exists>f\<in>set required_fields. map_of d f = None \<or> strip (str_field d f) = []")
  case True
  from check_required_bad [OF strs True] show ?thesis
    by (auto simp: validate_input_def)
next
  case False
  with bad have long: "length (str_field d ''company_name'') > 100
        \<or> length (str_field d ''industry'') > 100
        \<or> length (str_field d ''buyer_persona'') > 200
        \<or> length (str_field d ''main_pain_point'') > 500
        \<or> length (str_field d ''use_case'') > 500" by blast
  from check_required_strings [OF strs] obtain b msg
    where "check_required d required_fields = Inr (b, msg)" by blast
  with long show ?thesis
    by (cases b) (auto simp: validate_input_def)
qed

text \<open>
  C7, amended: when the body is a JSON object in which every required field that is
  present is a string, and a required field is missing, empty after trimming or longer
  than its bound (100, 100, 200, 500, 500 characters), the response is 400 with an error
  message, no request is sent to the text-generation service, the client is not built,
  and neither the store nor the disk changes.
\<close>

theorem invalid_fields_give_400:
  assumes body: "get_json req = Some (JDict d)"
    and strs: "\<forall>f\<in>set required_fields. \<forall>v. map_of d f = Some v \<longrightarrow> (\<exists>s. v = JStr s)"
    and bad: "(\<exists>f\<in>set required_fields. map_of d f = None \<or> strip (str_field d f) = [])
        \<or> length (str_field d ''company_name'') > 100
        \<or> length (str_field d ''industry'') > 100
        \<or> length (str_field d ''buyer_persona'') > 200
        \<or> length (str_field d ''main_pain_point'') > 500
        \<or> length (str_field d ''use_case'') > 500"
  shows "status (fst (generate_deck e w req)) = 400
     \<and> is_error_json (fst (generate_deck e w req))
     \<and> api_calls (snd (generate_deck e w req)) = api_calls w
     \<and> client (snd (generate_deck e w req)) = client w
     \<and> generated_files (snd (generate_deck e w req)) = generated_files w
     \<and> files (snd (generate_deck e w req)) = files w"
proof -
  from validate_input_bad [OF strs bad] obtain msg
    where "validate_input d = Inr (False, msg)" by blast
  then show ?thesis
    using body
    by (simp add: generate_deck_def generate_deck_try_def jsonify_def is_error_json_def logger_def)
qed

text \<open>A company name of 101 characters, with the service up.\<close>

theorem invalid_fields_give_400_witness:
  "status (fst (generate_deck env_reply world0
       (post [(''company_name'', JStr (replicate 101 (CHR ''a''))), (''industry'', JStr ''Retail''),
              (''buyer_persona'', JStr ''CTO''), (''main_pain_point'', JStr ''Churn''),
              (''use_case'', JStr ''Onboarding'')]))) = 400
   \<and> api_calls (snd (generate_deck env_reply world0
       (post [(''company_name'', JStr (replicate 101 (CHR ''a''))), (''industry'', JStr ''Retail''),
              (''buyer_persona'', JStr ''CTO''), (''main_pain_point'', JStr ''Churn''),
              (''use_case'', JStr ''Onboarding'')]))) = 0"
  using invalid_fields_give_400
    [of "post [(''company_name'', JStr (replicate 101 (CHR ''a''))), (''industry'', JStr ''Retail''),
              (''buyer_persona'', JStr ''CTO''), (''main_pain_point'', JStr ''Churn''),
              (''use_case'', JStr ''Onboarding'')]"
        "[(''company_name'', JStr (replicate 101 (CHR ''a''))), (''industry'', JStr ''Retail''),
              (''buyer_persona'', JStr ''CTO''), (''main_pain_point'', JStr ''Churn''),
              (''use_case'', JStr ''Onboarding'')]" env_reply world0]
  by (simp add: fixture_defs required_fields_def str_field_def)

text \<open>
  C7 as stated fails: in the body \<^verbatim>\<open>{"company_name": 5}\<close> four required fields are
  missing, and the response is 500, because the loop meets the number first.
\<close>

theorem number_before_missing_field_gives_500:
  "status (fst (generate_deck env0 world0 (post [(''company_name'', JInt 5)]))) = 500"
  by (simp add: generate_deck_def generate_deck_try_def validate_input_def required_fields_def
      jsonify_def fixture_defs)

lemma check_required_non_string:
  assumes "\<forall>g\<in>set before. \<exists>s. map_of d g = Some (JStr s) \<and> strip s \<noteq> []"
    and "map_of d f = Some v" and "\<forall>s. v \<noteq> JStr s"
  shows "check_required d (before @ f # after) = Inl AttributeError"
  using assms by (induction before) (auto split: json.splits)

text \<open>
  C10, amended: when a required field \<open>f\<close> is present and not a string, and every
  required field before it in the order of validation is a string that is not empty
  after trimming, the response is the 500 of the handler's catch-all, with the message
  of the \<^verbatim>\<open>AttributeError\<close>; the text-generation service is not called.
\<close>

theorem non_string_field_gives_500:
  assumes json: "is_json req" and body: "get_json req = Some (JDict d)"
    and split: "required_fields = before @ f # after"
    and earlier: "\<forall>g\<in>set before. \<exists>s. map_of d g = Some (JStr s) \<and> strip s \<noteq> []"
    and present: "map_of d f = Some v"
    and not_str: "\<forall>s. v \<noteq> JStr s"
  shows "fst (generate_deck e w req)
       = jsonify 500 [(''error'', JStr (''Internal server error: '' @ str_exc e AttributeError))]
     \<and> api_calls (snd (generate_deck e w req)) = api_calls w"
proof -
  have "validate_input d = Inl AttributeError"
    unfolding validate_input_def split
    by (simp add: check_required_non_string [OF earlier present not_str])
  then show ?thesis
    using json body
    by (simp add: generate_deck_def generate_deck_try_def logger_def)
qed

theorem non_string_field_gives_500_witness:
  "status (fst (generate_deck env0 world0
      (post [(''company_name'', JStr ''Acme''), (''industry'', JInt 5)]))) = 500
   \<and> is_error_json (fst (generate_deck env0 world0
      (post [(''company_name'', JStr ''Acme''), (''industry'', JInt 5)])))"
  using non_string_field_gives_500
    [of "post [(''company_name'', JStr ''Acme''), (''industry'', JInt 5)]"
        "[(''company_name'', JStr ''Acme''), (''industry'', JInt 5)]"
        "[''company_name'']" "''industry''"
        "[''buyer_persona'', ''main_pain_point'', ''use_case'']" "JInt 5" env0 world0]
  by (simp add: fixture_defs required_fields_def jsonify_def is_error_json_def strip_def isspace_def)

text \<open>
  C10 as stated fails: in the body \<^verbatim>\<open>{"industry": 5}\<close> the field \<^verbatim>\<open>industry\<close> is present
  and is a number, yet the response is 400: \<^verbatim>\<open>company_name\<close> is checked first and is
  missing.
\<close>

theorem missing_field_before_number_gives_400:
  "status (fst (generate_deck env0 world0 (post [(''industry'', JInt 5)]))) = 400"
  by (simp add: generate_deck_def generate_deck_try_def validate_input_def required_fields_def
      jsonify_def fixture_defs)

section \<open>Slide content and the slide count\<close>

lemmas deck_defs = generate_deck_def generate_deck_try_def generate_deck_valid_def
  render_and_store_def
  validate_input_def required_fields_def str_field_def strip_def isspace_def truthy_def
  generate_slide_content_def generate_slide_content_try_def get_openai_client_def
  parse_reply_def re_search_braces_def fallback_content_def slide_json_def
  create_powerpoint_def render_slide_def add_logo_def py_get_def py_iter_def py_len_def
  set_text_def store_deck_def prs_save_def remove_logo_def deck_response_def
  deck_filename_def os_path_join_def UPLOAD_FOLDER_def jsonify_def logger_def
  response_field_def slides_count_def Let_def

lemma slides_count_fallback: "slides_count (fallback_content a b c d f) = Some (JInt 8)"
  by (simp add: slides_count_def fallback_content_def py_get_def py_len_def)

text \<open>The \<^verbatim>\<open>try\<close> block raises when the client cannot be built, when the request to the
  service fails, and when the reply can be decoded neither as it is nor at its embedded
  object.\<close>

lemma generate_slide_content_try_raises:
  assumes "(\<not> client w \<and> openai_init e \<noteq> None)
      \<or> (\<exists>x. chat_completion e cn ind bp mpp uc = Inl x)
      \<or> (\<exists>content. chat_completion e cn ind bp mpp uc = Inr content
            \<and> json_loads e (strip content) = None
            \<and> (\<forall>m. re_search_braces (strip content) = Some m \<longrightarrow> json_loads e m = None))"
  shows "\<exists>x. fst (generate_slide_content_try e w cn ind bp mpp uc) = Inl x"
  using assms
  by (auto simp: generate_slide_content_try_def get_openai_client_def parse_reply_def
      split: option.splits sum.splits)

text \<open>
  C8: the fallback content is a function of the five inputs with no failure path. It is a
  dict with the one key \<^verbatim>\<open>slides\<close>, whose value is a list of exactly 8 slides; each slide
  is a dict with a string under \<^verbatim>\<open>title\<close> and, under \<^verbatim>\<open>content\<close>, a list of between 3 and 5
  strings (3 in fact); the titles are the fixed eight, the first with the company name
  in it; the industry is in the first bullet of slide 1, the pain point is the first
  bullet of slide 2 and the use case the first bullet of slide 5. Whenever the client
  cannot be built, the request to the service fails, or the reply cannot be decoded (as
  it is, and at its embedded object), \<^verbatim>\<open>generate_slide_content\<close> returns this content.
\<close>

theorem fallback_content_shape:
  "(\<exists>ss. fallback_content cn ind bp mpp uc = JDict [(''slides'', JList ss)]
      \<and> length ss = 8
      \<and> (\<forall>s\<in>set ss. \<exists>t bullets.
             s = JDict [(''title'', JStr t), (''content'', JList (map JStr bullets))]
             \<and> 3 \<le> length bullets \<and> length bullets \<le> 5)
      \<and> map (\<lambda>s. py_get s ''title'' (JStr [])) ss
          = map (\<lambda>t. Inr (JStr t))
              [''Welcome to '' @ cn, ''The Challenge'', ''Our Solution'', ''Product Overview'',
               ''Use Case'', ''Success Story'', ''Investment & ROI'', ''Next Steps'']
      \<and> ss ! 0 = JDict [(''title'', JStr (''Welcome to '' @ cn)),
             (''content'', JList [JStr (''Professional solutions for '' @ ind),
                JStr ''Driving innovation and growth'', JStr ''Your trusted partner''])]
      \<and> ss ! 1 = JDict [(''title'', JStr ''The Challenge''),
             (''content'', JList [JStr mpp, JStr ''Industry-wide impact'',
                JStr ''Need for solution''])]
      \<and> ss ! 4 = JDict [(''title'', JStr ''Use Case''),
             (''content'', JList [JStr uc, JStr ''Implementation strategy'',
                JStr ''Expected outcomes''])])
   \<and> ((\<not> client w \<and> openai_init e \<noteq> None)
        \<or> (\<exists>x. chat_completion e cn ind bp mpp uc = Inl x)
        \<or> (\<exists>content. chat_completion e cn ind bp mpp uc = Inr content
              \<and> json_loads e (strip content) = None
              \<and> (\<forall>m. re_search_braces (strip content) = Some m \<longrightarrow> json_loads e m = None))
      \<longrightarrow> fst (generate_slide_content e w cn ind bp mpp uc)
            = fallback_content cn ind bp mpp uc)"
proof -
  have three: "\<And>a b c. \<exists>bullets. [JStr a, JStr b, JStr c] = map JStr bullets
        \<and> 3 \<le> length bullets \<and> length bullets \<le> 5"
  proof -
    fix a b c
    show "\<exists>bullets. [JStr a, JStr b, JStr c] = map JStr bullets
        \<and> 3 \<le> length bullets \<and> length bullets \<le> 5"
      by (rule exI [of _ "[a, b, c]"]) simp
  qed
  have returned: "(\<not> client w \<and> openai_init e \<noteq> None)
        \<or> (\<exists>x. chat_completion e cn ind bp mpp uc = Inl x)
        \<or> (\<exists>content. chat_completion e cn ind bp mpp uc = Inr content
              \<and> json_loads e (strip content) = None
              \<and> (\<forall>m. re_search_braces (strip content) = Some m \<longrightarrow> json_loads e m = None))
      \<longrightarrow> fst (generate_slide_content e w cn ind bp mpp uc)
            = fallback_content cn ind bp mpp uc"
  proof
    assume "(\<not> client w \<and> openai_init e \<noteq> None)
        \<or> (\<exists>x. chat_completion e cn ind bp mpp uc = Inl x)
        \<or> (\<exists>content. chat_completion e cn ind bp mpp uc = Inr content
              \<and> json_loads e (strip content) = None
              \<and> (\<forall>m. re_search_braces (strip content) = Some m \<longrightarrow> json_loads e m = None))"
    from generate_slide_content_try_raises [OF this] obtain x
      where "fst (generate_slide_content_try e w cn ind bp mpp uc) = Inl x" by blast
    then show "fst (generate_slide_content e w cn ind bp mpp uc)
        = fallback_content cn ind bp mpp uc"
      by (cases "generate_slide_content_try e w cn ind bp mpp uc")
         (simp add: generate_slide_content_def)
  qed
  have "\<exists>ss. fallback_content cn ind bp mpp uc = JDict [(''slides'', JList ss)]
      \<and> length ss = 8
      \<and> (\<forall>s\<in>set ss. \<exists>t bullets.
             s = JDict [(''title'', JStr t), (''content'', JList (map JStr bullets))]
             \<and> 3 \<le> length bullets \<and> length bullets \<le> 5)
      \<and> map (\<lambda>s. py_get s ''title'' (JStr [])) ss
          = map (\<lambda>t. Inr (JStr t))
              [''Welcome to '' @ cn, ''The Challenge'', ''Our Solution'', ''Product Overview'',
               ''Use Case'', ''Success Story'', ''Investment & ROI'', ''Next Steps'']
      \<and> ss ! 0 = JDict [(''title'', JStr (''Welcome to '' @ cn)),
             (''content'', JList [JStr (''Professional solutions for '' @ ind),
                JStr ''Driving innovation and growth'', JStr ''Your trusted partner''])]
      \<and> ss ! 1 = JDict [(''title'', JStr ''The Challenge''),
             (''content'', JList [JStr mpp, JStr ''Industry-wide impact'',
                JStr ''Need for solution''])]
      \<and> ss ! 4 = JDict [(''title'', JStr ''Use Case''),
             (''content'', JList [JStr uc, JStr ''Implementation strategy'',
                JStr ''Expected outcomes''])]"
    unfolding fallback_content_def slide_json_def
    apply (intro exI conjI)
          apply (rule refl)
         apply (simp_all add: py_get_def)
    apply (intro conjI three)
    done
  with returned show ?thesis by blast
qed

text \<open>The service is down: the request fails and the fallback content is returned, with
  the inputs in their places.\<close>

theorem fallback_content_shape_witness:
  "chat_completion env0 ''Acme'' ''Retail'' ''CTO'' ''Churn'' ''Onboarding'' = Inl OpenAIError
   \<and> fst (generate_slide_content env0 world0 ''Acme'' ''Retail'' ''CTO'' ''Churn'' ''Onboarding'')
     = JDict [(''slides'', JList [
         JDict [(''title'', JStr ''Welcome to Acme''),
           (''content'', JList [JStr ''Professional solutions for Retail'',
              JStr ''Driving innovation and growth'', JStr ''Your trusted partner''])],
         JDict [(''title'', JStr ''The Challenge''),
           (''content'', JList [JStr ''Churn'', JStr ''Industry-wide impact'',
              JStr ''Need for solution''])],
         JDict [(''title'', JStr ''Our Solution''),
           (''content'', JList [JStr ''Innovative approach'', JStr ''Proven methodology'',
              JStr ''Measurable results''])],
         JDict [(''title'', JStr ''Product Overview''),
           (''content'', JList [JStr ''Key features'', JStr ''Benefits'',
              JStr ''Competitive advantages''])],
         JDict [(''title'', JStr ''Use Case''),
           (''content'', JList [JStr ''Onboarding'', JStr ''Implementation strategy'',
              JStr ''Expected outcomes''])],
         JDict [(''title'', JStr ''Success Story''),
           (''content'', JList [JStr ''Client challenge'', JStr ''Our solution'',
              JStr ''Results achieved''])],
         JDict [(''title'', JStr ''Investment & ROI''),
           (''content'', JList [JStr ''Competitive pricing'', JStr ''Clear value proposition'',
              JStr ''Return on investment''])],
         JDict [(''title'', JStr ''Next Steps''),
           (''content'', JList [JStr ''Schedule demo'', JStr ''Discuss implementation'',
              JStr ''Begin partnership''])]])]"
  using fallback_content_shape
    [of "''Acme''" "''Retail''" "''CTO''" "''Churn''" "''Onboarding''" world0 env0]
  by (simp add: fixture_defs fallback_content_def slide_json_def)

lemma try_fst_client:
  "client w1 = client w2 \<Longrightarrow>
   fst (generate_slide_content_try e w1 a b c d f) = fst (generate_slide_content_try e w2 a b c d f)"
  by (auto simp: generate_slide_content_try_def get_openai_client_def
      split: option.splits sum.splits)

lemma slide_content_cases:
  "fst (generate_slide_content e w a b c d f) =
     (case fst (generate_slide_content_try e w a b c d f) of
        Inl x \<Rightarrow> fallback_content a b c d f
      | Inr v \<Rightarrow> v)"
  by (auto simp: generate_slide_content_def split: prod.splits sum.splits)

lemma deck_response_field:
  "deck_response e sd fname = Inr r \<Longrightarrow> response_field r ''slides_generated'' = slides_count sd"
  by (auto simp: deck_response_def jsonify_def response_field_def slides_count_def split: sum.splits)

lemma save_base64_image_client: "client (snd (save_base64_image e w v n)) = client w"
  by (auto simp: save_base64_image_def save_base64_image_try_def logger_def
      split: json.splits option.splits prod.splits sum.splits)

lemma store_deck_response:
  "store_deck e w sd cn lp = (Inr r, w') \<Longrightarrow>
   status r = 200 \<and> response_field r ''slides_generated'' = slides_count sd"
  by (auto simp: store_deck_def Let_def dest: deck_response_status deck_response_field
      split: sum.splits prod.splits)

lemma generate_deck_valid_response:
  assumes "generate_deck_valid e w d = (Inr r, w')"
  shows "status r = 200 \<and> response_field r ''slides_generated'' =
     slides_count (case fst (generate_slide_content_try e w
           (strip (str_field d ''company_name'')) (strip (str_field d ''industry''))
           (strip (str_field d ''buyer_persona''))
           (strip (str_field d ''main_pain_point'')) (strip (str_field d ''use_case''))) of
        Inl x \<Rightarrow> fallback_content (strip (str_field d ''company_name''))
           (strip (str_field d ''industry'')) (strip (str_field d ''buyer_persona''))
           (strip (str_field d ''main_pain_point'')) (strip (str_field d ''use_case''))
      | Inr v \<Rightarrow> v)"
proof -
  let ?logo = "(if truthy (case map_of d ''logo_base64'' of Some v \<Rightarrow> v | None \<Rightarrow> JStr [])
            then save_base64_image e w
                   (case map_of d ''logo_base64'' of Some v \<Rightarrow> v | None \<Rightarrow> JStr [])
                   (''logo_'' @ uuid4_hex e @ ''.png'')
            else (None, w))"
  let ?w1 = "logger INFO ''Generating slide content with GPT-4...'' (snd ?logo)"
  have cl: "client ?w1 = client w"
    by (simp add: logger_def save_base64_image_client)
  let ?gen = "generate_slide_content e ?w1
           (strip (str_field d ''company_name'')) (strip (str_field d ''industry''))
           (strip (str_field d ''buyer_persona''))
           (strip (str_field d ''main_pain_point'')) (strip (str_field d ''use_case''))"
  from assms obtain w3 where
    "store_deck e w3 (fst ?gen) (strip (str_field d ''company_name'')) (fst ?logo) = (Inr r, w')"
    by (auto simp: generate_deck_valid_def render_and_store_def split: prod.splits sum.splits)
  from store_deck_response [OF this] show ?thesis
    by (simp add: slide_content_cases try_fst_client [OF cl])
qed

text \<open>
  C2 as stated fails: the service answers \<^verbatim>\<open>{}\<close>, which \<^verbatim>\<open>json.loads\<close> decodes to the
  empty dict; the request is valid, the response is 200 and \<^verbatim>\<open>slides_generated\<close> is 0.
\<close>

theorem reply_with_no_slides:
  "status (fst (generate_deck env_reply world0 (post valid_fields))) = 200
   \<and> response_field (fst (generate_deck env_reply world0 (post valid_fields)))
        ''slides_generated'' = Some (JInt 0)"
  by (simp add: deck_defs fixture_defs)

text \<open>
  C2, amended: in a 200 response of generate-deck, \<^verbatim>\<open>slides_generated\<close> is 8 when the
  \<^verbatim>\<open>try\<close> block of \<^verbatim>\<open>generate_slide_content\<close> raises (the fallback path); when the
  block returns a decoded reply \<open>v\<close>, it is the length of \<^verbatim>\<open>v.get('slides', [])\<close>,
  whatever that is.
\<close>

theorem slides_generated_count:
  assumes body: "get_json req = Some (JDict d)"
    and ok: "status (fst (generate_deck e w req)) = 200"
  shows "response_field (fst (generate_deck e w req)) ''slides_generated'' =
     (case fst (generate_slide_content_try e w
           (strip (str_field d ''company_name'')) (strip (str_field d ''industry''))
           (strip (str_field d ''buyer_persona''))
           (strip (str_field d ''main_pain_point'')) (strip (str_field d ''use_case''))) of
        Inl x \<Rightarrow> Some (JInt 8)
      | Inr v \<Rightarrow> slides_count v)"
proof -
  from ok obtain r w' where call: "generate_deck_try e w req = (Inr r, w')"
    and r: "fst (generate_deck e w req) = r"
    by (cases "generate_deck_try e w req")
       (auto simp: generate_deck_def jsonify_def split: sum.splits)
  from ok r have "status r = 200" by simp
  with call body obtain w1 where "generate_deck_valid e w1 d = (Inr r, w')"
    and "client w1 = client w"
    by (auto simp: generate_deck_try_def jsonify_def logger_def
        split: if_splits sum.splits prod.splits bool.splits)
  from generate_deck_valid_response [OF this(1)] try_fst_client [OF this(2)] r
  show ?thesis
    by (auto simp: slides_count_fallback split: sum.splits)
qed

text \<open>The service is down and the request is valid: 200 with 8 slides.\<close>

theorem slides_generated_count_witness:
  "status (fst (generate_deck env0 world0 (post valid_fields))) = 200
   \<and> response_field (fst (generate_deck env0 world0 (post valid_fields)))
        ''slides_generated'' = Some (JInt 8)"
  using slides_generated_count [of "post valid_fields" valid_fields env0 world0]
  by (simp add: deck_defs fixture_defs)


section \<open>A logo that cannot be decoded\<close>

lemma same_state_refl [simp]: "same_state w w"
  by (simp add: same_state_def)

lemma same_state_logger [simp]:
  "same_state (logger l m w1) w2 = same_state w1 w2"
  "same_state w1 (logger l m w2) = same_state w1 w2"
  by (simp_all add: same_state_def logger_def)
































end
